theory Spec2Isabelle
  imports Main "HOL-Library.Sublist"
begin

section \<open>Data model\<close>

text \<open>
  The screens of the application declare the same TypeScript types, each in its own file:
  \<^verbatim>\<open>Rarity\<close>, \<^verbatim>\<open>SubmittedCollection\<close> (a record the user submitted) and
  \<^verbatim>\<open>Collection\<close> / \<^verbatim>\<open>SeedCollection\<close> (a bundled record, also the display record of
  the marketplace list).
\<close>

datatype Rarity = Common | Uncommon | Rare | Epic | Legendary

text \<open>
  A submitted collection as it lies in the store. The field \<^verbatim>\<open>images\<close> was added to the
  type after the first release (\<^verbatim>\<open>images: string[]; // card images (NEW)\<close>), so a stored
  record may lack it: \<open>None\<close> stands for a record on which \<^verbatim>\<open>Array.isArray(c.images)\<close>
  is false, \<open>Some xs\<close> for one whose \<^verbatim>\<open>images\<close> is the array \<open>xs\<close>.
\<close>

record SubmittedCollection =
  sc_id :: string
  sc_title :: string
  sc_description :: string
  sc_rarity :: Rarity
  sc_imageUri :: string
  sc_images :: "string list option"
  sc_status :: string
  sc_createdAt :: string

record Collection =
  c_id :: string
  c_title :: string
  c_creator :: string
  c_rarity :: Rarity
  c_items :: int
  c_theme :: string
  c_imageUrl :: string

text \<open>\<^verbatim>\<open>seedCollections\<close> of \<^verbatim>\<open>index.tsx\<close>, \<^verbatim>\<open>collection/[id].tsx\<close> and
  \<^verbatim>\<open>edit-collection/[id].tsx\<close> (the same four records in the three files).\<close>

definition seedCollections :: "Collection list" where
  "seedCollections =
    [ \<lparr> c_id = ''1'', c_title = ''Neon City Dreams'', c_creator = ''ArtByNova'',
        c_rarity = Epic, c_items = 12,
        c_theme = ''Cyberpunk cityscapes and neon characters.'',
        c_imageUrl = ''https://images.pexels.com/photos/3404200/pexels-photo-3404200.jpeg?auto=compress&cs=tinysrgb&w=800'' \<rparr>,
      \<lparr> c_id = ''2'', c_title = ''Forest Spirits'', c_creator = ''WillowSketch'',
        c_rarity = Rare, c_items = 18,
        c_theme = ''Magical creatures hidden in ancient woods.'',
        c_imageUrl = ''https://images.pexels.com/photos/15286/pexels-photo.jpg?auto=compress&cs=tinysrgb&w=800'' \<rparr>,
      \<lparr> c_id = ''3'', c_title = ''Pixel Pals'', c_creator = ''RetroRaccoon'',
        c_rarity = Common, c_items = 24,
        c_theme = ''Cute pixel pets and tiny worlds.'',
        c_imageUrl = ''https://images.pexels.com/photos/1293261/pexels-photo-1293261.jpeg?auto=compress&cs=tinysrgb&w=800'' \<rparr>,
      \<lparr> c_id = ''4'', c_title = ''Cosmic Cards'', c_creator = ''StellarInk'',
        c_rarity = Legendary, c_items = 8,
        c_theme = ''Galaxy-inspired characters and tarot-style cards.'',
        c_imageUrl = ''https://images.pexels.com/photos/2150/sky-space-dark-galaxy.jpg?auto=compress&cs=tinysrgb&w=800'' \<rparr> ]"

section \<open>The device store\<close>

text \<open>
  \<^verbatim>\<open>AsyncStorage\<close> holds one string under \<^verbatim>\<open>STORAGE_KEY = "submittedCollections"\<close>.
  The text layer is not modelled character by character: a stored string is represented by
  what \<^verbatim>\<open>JSON.parse\<close> makes of it.
  \<^item> \<open>EmptyString\<close> is the string of length 0 (falsy in JavaScript, and rejected by the parser);
  \<^item> \<open>Malformed\<close> is a non-empty string that \<^verbatim>\<open>JSON.parse\<close> rejects with a SyntaxError;
  \<^item> \<open>JsonText p\<close> is a string that parses to \<open>p\<close>.

  A parsed document is either something that is not an array (an object, a number, a
  string, \<^verbatim>\<open>null\<close>, ...) or an array of records. Arrays are taken to hold records of the
  shape the application writes, up to a missing \<^verbatim>\<open>images\<close> field; this is the type the
  loaders give to the parse result (\<^verbatim>\<open>const parsed: SubmittedCollection[]\<close>).
\<close>

datatype parsed = NotArray | Array "SubmittedCollection list"

datatype raw = EmptyString | Malformed | JsonText parsed

datatype js_error = SyntaxError | TypeError | StorageError

fun JSON_parse :: "raw \<Rightarrow> js_error + parsed" where
  "JSON_parse EmptyString = Inl SyntaxError"
| "JSON_parse Malformed = Inl SyntaxError"
| "JSON_parse (JsonText p) = Inr p"

text \<open>\<^verbatim>\<open>JSON.stringify\<close> of an array of records: text that parses back to that array.\<close>

definition JSON_stringify :: "SubmittedCollection list \<Rightarrow> raw" where
  "JSON_stringify cs = JsonText (Array cs)"

text \<open>
  The device: the value under the key (\<open>None\<close> when the key was never written, for which
  \<^verbatim>\<open>getItem\<close> resolves to \<^verbatim>\<open>null\<close>), and whether the next read or write is rejected by
  the platform (every call of the source sits in a \<^verbatim>\<open>try\<close> block).
\<close>

record AsyncStorage =
  item :: "raw option"
  getItem_rejects :: bool
  setItem_rejects :: bool

definition getItem :: "AsyncStorage \<Rightarrow> js_error + raw option" where
  "getItem dev = (if getItem_rejects dev then Inl StorageError else Inr (item dev))"

definition setItem :: "AsyncStorage \<Rightarrow> raw \<Rightarrow> js_error + AsyncStorage" where
  "setItem dev v = (if setItem_rejects dev then Inl StorageError else Inr (dev\<lparr>item := Some v\<rparr>))"

text \<open>\<^verbatim>\<open>!raw\<close> for \<^verbatim>\<open>raw: string | null\<close>: true for \<^verbatim>\<open>null\<close> and for the empty string.\<close>

fun falsy :: "raw option \<Rightarrow> bool" where
  "falsy None = True"
| "falsy (Some EmptyString) = True"
| "falsy (Some _) = False"

section \<open>Marketplace list (index.tsx)\<close>

text \<open>\<^verbatim>\<open>"All" | Rarity\<close>, the type of the selected filter chip.\<close>

datatype Filter = AllFilter | Only Rarity

record HomeScreen =
  selectedFilter :: Filter
  userCollections :: "Collection list"

text \<open>The callback of \<^verbatim>\<open>parsed.map\<close> in \<^verbatim>\<open>loadUserCollections\<close>.\<close>

definition mapped :: "SubmittedCollection \<Rightarrow> Collection" where
  "mapped c = \<lparr> c_id = sc_id c, c_title = sc_title c, c_creator = ''You'',
                c_rarity = sc_rarity c, c_items = 1, c_theme = sc_description c,
                c_imageUrl = sc_imageUri c \<rparr>"

text \<open>
  The loaders share one shape: a rejected read, a falsy value, a parse error and a value
  that is not an array each end in the empty list. The branch \<open>None\<close> after the test
  \<open>falsy\<close> is never taken (\<^verbatim>\<open>null\<close> is falsy); it is there because the case
  distinction must be complete.
\<close>

definition loadUserCollections :: "AsyncStorage \<Rightarrow> HomeScreen \<Rightarrow> HomeScreen" where
  "loadUserCollections dev st =
    (case getItem dev of
       Inl err \<Rightarrow> st\<lparr>userCollections := []\<rparr>
     | Inr r \<Rightarrow>
        if falsy r then st\<lparr>userCollections := []\<rparr>
        else (case r of
                None \<Rightarrow> st\<lparr>userCollections := []\<rparr>
              | Some txt \<Rightarrow>
                 (case JSON_parse txt of
                    Inl err \<Rightarrow> st\<lparr>userCollections := []\<rparr>
                  | Inr (Array cs) \<Rightarrow> st\<lparr>userCollections := map mapped cs\<rparr>
                  | Inr NotArray \<Rightarrow> st\<lparr>userCollections := []\<rparr>)))"

definition allCollections :: "HomeScreen \<Rightarrow> Collection list" where
  "allCollections st = userCollections st @ seedCollections"

definition filteredCollections :: "HomeScreen \<Rightarrow> Collection list" where
  "filteredCollections st =
    (case selectedFilter st of
       AllFilter \<Rightarrow> allCollections st
     | Only r \<Rightarrow> filter (\<lambda>c. c_rarity c = r) (allCollections st))"

section \<open>Navigation and alerts\<close>

text \<open>What a handler asks of the router and what it shows to the user.\<close>

datatype nav = Push string | Back

datatype alert = Alert string string

section \<open>My Collections (my-collections.tsx)\<close>

record MyCollectionsScreen =
  collections :: "SubmittedCollection list"
  isLoading :: bool

text \<open>\<^verbatim>\<open>{ ...c, images: Array.isArray(c.images) ? c.images : [] }\<close>\<close>

definition normalise :: "SubmittedCollection \<Rightarrow> SubmittedCollection" where
  "normalise c = c\<lparr>sc_images := Some (case sc_images c of Some xs \<Rightarrow> xs | None \<Rightarrow> [])\<rparr>"

definition loadCollections :: "AsyncStorage \<Rightarrow> MyCollectionsScreen \<Rightarrow> MyCollectionsScreen" where
  "loadCollections dev st =
    (case getItem dev of
       Inl err \<Rightarrow> st\<lparr>collections := [], isLoading := False\<rparr>
     | Inr r \<Rightarrow>
        if falsy r then st\<lparr>collections := [], isLoading := False\<rparr>
        else (case r of
                None \<Rightarrow> st\<lparr>collections := [], isLoading := False\<rparr>
              | Some txt \<Rightarrow>
                 (case JSON_parse txt of
                    Inl err \<Rightarrow> st\<lparr>collections := [], isLoading := False\<rparr>
                  | Inr (Array cs) \<Rightarrow> st\<lparr>collections := map normalise cs, isLoading := False\<rparr>
                  | Inr NotArray \<Rightarrow> st\<lparr>collections := [], isLoading := False\<rparr>)))"

text \<open>
  \<^verbatim>\<open>handleDelete\<close> opens a confirmation dialog with two buttons; the deletion is the
  \<^verbatim>\<open>onPress\<close> of the second. The wording of the dialog is not modelled.
\<close>

datatype button = CancelButton | DeleteButton

definition handleDelete ::
  "string \<Rightarrow> button \<Rightarrow> MyCollectionsScreen \<Rightarrow> AsyncStorage
     \<Rightarrow> MyCollectionsScreen \<times> AsyncStorage \<times> alert option" where
  "handleDelete i pressed st dev =
    (case pressed of
       CancelButton \<Rightarrow> (st, dev, None)
     | DeleteButton \<Rightarrow>
        (let updated = filter (\<lambda>c. sc_id c \<noteq> i) (collections st);
             st1 = st\<lparr>collections := updated\<rparr>
         in case setItem dev (JSON_stringify updated) of
              Inr dev1 \<Rightarrow> (st1, dev1, None)
            | Inl err \<Rightarrow>
               (st1, dev, Some (Alert ''Error''
                  ''Something went wrong while deleting. Please try again.''))))"

definition handleEdit :: "string \<Rightarrow> nav" where
  "handleEdit i = Push (''/edit-collection/'' @ i)"

section \<open>Contributor dashboard (contributor-dashboard.tsx)\<close>

record ContributorDashboardScreen =
  title :: string
  description :: string
  rarity :: "Rarity option"
  imageUri :: "string option"
  extraImages :: "string list"
  isSubmitting :: bool
  submittedCollections :: "SubmittedCollection list"

definition loadSubmitted ::
  "AsyncStorage \<Rightarrow> ContributorDashboardScreen \<Rightarrow> ContributorDashboardScreen" where
  "loadSubmitted dev st =
    (case getItem dev of
       Inl err \<Rightarrow> st\<lparr>submittedCollections := []\<rparr>
     | Inr r \<Rightarrow>
        if falsy r then st\<lparr>submittedCollections := []\<rparr>
        else (case r of
                None \<Rightarrow> st\<lparr>submittedCollections := []\<rparr>
              | Some txt \<Rightarrow>
                 (case JSON_parse txt of
                    Inl err \<Rightarrow> st\<lparr>submittedCollections := []\<rparr>
                  | Inr (Array cs) \<Rightarrow> st\<lparr>submittedCollections := cs\<rparr>
                  | Inr NotArray \<Rightarrow> st\<lparr>submittedCollections := []\<rparr>)))"

text \<open>
  \<^verbatim>\<open>String.prototype.trim\<close> removes white space and line terminators at both ends.
  Characters are the 8-bit characters of \<^typ>\<open>string\<close>, read as the code points below 256:
  TAB, LF, VT, FF, CR, SPACE and NO-BREAK SPACE. The other white space of ECMAScript
  (U+1680, U+2000 to U+200A, U+2028, U+2029, U+202F, U+205F, U+3000, U+FEFF) lies beyond them.
\<close>

definition is_ws :: "char \<Rightarrow> bool" where
  "is_ws c = (c \<in> set [CHR 0x09, CHR 0x0A, CHR 0x0B, CHR 0x0C, CHR 0x0D, CHR 0x20, CHR 0xA0])"

definition trim :: "string \<Rightarrow> string" where
  "trim s = rev (dropWhile is_ws (rev (dropWhile is_ws s)))"

text \<open>\<^verbatim>\<open>Number.prototype.toString\<close> on a non-negative integer: its decimal digits.\<close>

definition digit :: "nat \<Rightarrow> char" where
  "digit d = ''0123456789'' ! d"

function toString :: "nat \<Rightarrow> string" where
  "toString n = (if n < 10 then [digit n] else toString (n div 10) @ [digit (n mod 10)])"
  by pat_completeness auto
termination
  by (relation "measure (\<lambda>n. n)") auto

declare toString.simps [simp del]

text \<open>The test at the head of \<^verbatim>\<open>handleSubmit\<close>:
  \<^verbatim>\<open>!title.trim() || !description.trim() || !rarity || !imageUri\<close>.\<close>

definition missing_info :: "ContributorDashboardScreen \<Rightarrow> bool" where
  "missing_info st =
    (trim (title st) = [] \<or> trim (description st) = [] \<or> rarity st = None
     \<or> (imageUri st = None \<or> imageUri st = Some []))"

definition missing_info_alert :: alert where
  "missing_info_alert = Alert ''Missing info''
     ''Please add a title, description, rarity, and cover image before submitting.''"

text \<open>
  \<^verbatim>\<open>handleSubmit\<close>. The clock is read twice: \<open>now\<close> is \<^verbatim>\<open>Date.now()\<close>, in milliseconds,
  and \<open>stamp\<close> is the text \<^verbatim>\<open>new Date().toISOString()\<close> gives. After the test
  \<open>missing_info\<close> both \<open>rarity\<close> and \<open>imageUri\<close> are set, so the last branch is never
  taken.
\<close>

definition newCollection :: "nat \<Rightarrow> string \<Rightarrow> ContributorDashboardScreen \<Rightarrow> Rarity \<Rightarrow> string
    \<Rightarrow> SubmittedCollection" where
  "newCollection now stamp st r uri =
    \<lparr> sc_id = toString now, sc_title = trim (title st), sc_description = trim (description st),
      sc_rarity = r, sc_imageUri = uri, sc_images = Some (extraImages st),
      sc_status = ''pending'', sc_createdAt = stamp \<rparr>"

definition handleSubmit ::
  "nat \<Rightarrow> string \<Rightarrow> ContributorDashboardScreen \<Rightarrow> AsyncStorage
     \<Rightarrow> ContributorDashboardScreen \<times> AsyncStorage \<times> alert option" where
  "handleSubmit now stamp st dev =
    (if missing_info st then (st, dev, Some missing_info_alert)
     else (case (rarity st, imageUri st) of
             (Some r, Some uri) \<Rightarrow>
               (let updated = newCollection now stamp st r uri # submittedCollections st;
                    st1 = st\<lparr>submittedCollections := updated\<rparr>
                in case setItem dev (JSON_stringify updated) of
                     Inr dev1 \<Rightarrow>
                       (st1\<lparr>title := [], description := [], rarity := None, imageUri := None,
                            extraImages := [], isSubmitting := False\<rparr>,
                        dev1, Some (Alert ''Submitted'' ''Your collection has been submitted.''))
                   | Inl err \<Rightarrow>
                       (st1\<lparr>isSubmitting := False\<rparr>, dev,
                        Some (Alert ''Error''
                          ''Something went wrong while submitting. Please try again.'')))
           | _ \<Rightarrow> (st, dev, Some missing_info_alert)))"

section \<open>Detail screen (collection/[id].tsx) and the screen behind "Edit"\<close>

text \<open>\<^verbatim>\<open>LoadedCollection\<close>: the record found, tagged with where it came from.\<close>

datatype LoadedCollection = User SubmittedCollection | Seed Collection

record CollectionDetailsScreen =
  d_isLoading :: bool
  collection :: "LoadedCollection option"
  viewerOpen :: bool
  viewerIndex :: nat

text \<open>
  Step 1 of \<^verbatim>\<open>load\<close>: the search in the store. A parse error and
  \<^verbatim>\<open>parsed.map\<close> on a value that is not an array (a TypeError) are thrown to the
  \<^verbatim>\<open>catch\<close> of \<^verbatim>\<open>load\<close>; \<open>Inr None\<close> is "nothing found, go on with the seed data".
\<close>

definition foundUser :: "raw option \<Rightarrow> string \<Rightarrow> js_error + SubmittedCollection option" where
  "foundUser r i =
    (if falsy r then Inr None
     else (case r of
             None \<Rightarrow> Inr None
           | Some txt \<Rightarrow>
              (case JSON_parse txt of
                 Inl err \<Rightarrow> Inl err
               | Inr NotArray \<Rightarrow> Inl TypeError
               | Inr (Array cs) \<Rightarrow> Inr (find (\<lambda>c. sc_id c = i) (map normalise cs)))))"

definition load :: "AsyncStorage \<Rightarrow> string \<Rightarrow> LoadedCollection option" where
  "load dev i =
    (case getItem dev of
       Inl err \<Rightarrow> None
     | Inr r \<Rightarrow>
        (case foundUser r i of
           Inl err \<Rightarrow> None
         | Inr (Some u) \<Rightarrow> Some (User u)
         | Inr None \<Rightarrow>
            (case find (\<lambda>c. c_id c = i) seedCollections of
               Some s \<Rightarrow> Some (Seed s)
             | None \<Rightarrow> None)))"

text \<open>
  \<^verbatim>\<open>edit-collection/[id].tsx\<close> is the screen \<^verbatim>\<open>handleEdit\<close> navigates to. Its component
  is again called \<^verbatim>\<open>CollectionDetailsScreen\<close> and its \<^verbatim>\<open>load\<close> is, line by line, the one
  above. What the screen reacts to: being mounted with the route parameter (the effect
  that runs \<^verbatim>\<open>load\<close>), a tap on a thumbnail (\<^verbatim>\<open>openViewerAt\<close>), the end of a scroll in the
  viewer (\<^verbatim>\<open>handleScrollEnd\<close>, here with the page index it computes), the close button of
  the viewer, and the end of the pan gesture (\<^verbatim>\<open>router.back()\<close> when it went far enough).
  The animation values are left out.
\<close>

definition edit_load :: "AsyncStorage \<Rightarrow> string \<Rightarrow> LoadedCollection option" where
  "edit_load dev i =
    (case getItem dev of
       Inl err \<Rightarrow> None
     | Inr r \<Rightarrow>
        (case foundUser r i of
           Inl err \<Rightarrow> None
         | Inr (Some u) \<Rightarrow> Some (User u)
         | Inr None \<Rightarrow>
            (case find (\<lambda>c. c_id c = i) seedCollections of
               Some s \<Rightarrow> Some (Seed s)
             | None \<Rightarrow> None)))"

datatype edit_event = Mounted | OpenViewerAt nat | ScrollEnd nat | CloseViewer | PanEnd bool

fun edit_step ::
  "string \<Rightarrow> edit_event \<Rightarrow> CollectionDetailsScreen \<times> AsyncStorage
     \<Rightarrow> CollectionDetailsScreen \<times> AsyncStorage" where
  "edit_step i Mounted (st, dev) = (st\<lparr>collection := edit_load dev i, d_isLoading := False\<rparr>, dev)"
| "edit_step i (OpenViewerAt n) (st, dev) = (st\<lparr>viewerIndex := n, viewerOpen := True\<rparr>, dev)"
| "edit_step i (ScrollEnd n) (st, dev) = (st\<lparr>viewerIndex := n\<rparr>, dev)"
| "edit_step i CloseViewer (st, dev) = (st\<lparr>viewerOpen := False\<rparr>, dev)"
| "edit_step i (PanEnd shouldGoBack) (st, dev) = (st, dev)"

fun edit_run ::
  "string \<Rightarrow> edit_event list \<Rightarrow> CollectionDetailsScreen \<times> AsyncStorage
     \<Rightarrow> CollectionDetailsScreen \<times> AsyncStorage" where
  "edit_run i [] s = s"
| "edit_run i (ev # evs) s = edit_run i evs (edit_step i ev s)"

section \<open>Sample data\<close>

text \<open>Records, forms and devices on which the properties below are exercised.\<close>

definition old_record :: SubmittedCollection where
  "old_record = \<lparr> sc_id = ''1700000000000'', sc_title = ''First'', sc_description = ''D'',
      sc_rarity = Rare, sc_imageUri = ''file:///cover1.jpg'', sc_images = None,
      sc_status = ''pending'', sc_createdAt = ''2023-11-14T22:13:20.000Z'' \<rparr>"

definition new_record :: SubmittedCollection where
  "new_record = \<lparr> sc_id = ''1700000500000'', sc_title = ''Second'', sc_description = ''E'',
      sc_rarity = Epic, sc_imageUri = ''file:///cover2.jpg'',
      sc_images = Some [''file:///a.jpg'', ''file:///b.jpg''],
      sc_status = ''pending'', sc_createdAt = ''2023-11-14T22:21:40.000Z'' \<rparr>"

definition clash_record :: SubmittedCollection where
  "clash_record = \<lparr> sc_id = ''2'', sc_title = ''Mine'', sc_description = ''F'',
      sc_rarity = Common, sc_imageUri = ''file:///cover3.jpg'', sc_images = None,
      sc_status = ''pending'', sc_createdAt = ''2024-01-01T00:00:00.000Z'' \<rparr>"

definition twin_record :: SubmittedCollection where
  "twin_record = \<lparr> sc_id = ''1700000000000'', sc_title = ''Twin'', sc_description = ''G'',
      sc_rarity = Uncommon, sc_imageUri = ''file:///cover4.jpg'', sc_images = Some [],
      sc_status = ''pending'', sc_createdAt = ''2023-11-14T22:13:20.000Z'' \<rparr>"

definition fresh_device :: AsyncStorage where
  "fresh_device = \<lparr> item = None, getItem_rejects = False, setItem_rejects = False \<rparr>"

definition stocked_device :: AsyncStorage where
  "stocked_device = \<lparr> item = Some (JsonText (Array [new_record, clash_record])),
      getItem_rejects = False, setItem_rejects = False \<rparr>"

definition single_device :: AsyncStorage where
  "single_device = \<lparr> item = Some (JsonText (Array [new_record])),
      getItem_rejects = False, setItem_rejects = False \<rparr>"

definition corrupt_device :: AsyncStorage where
  "corrupt_device = \<lparr> item = Some Malformed, getItem_rejects = False, setItem_rejects = False \<rparr>"

definition empty_device :: AsyncStorage where
  "empty_device = \<lparr> item = Some (JsonText (Array [])), getItem_rejects = False,
      setItem_rejects = False \<rparr>"

definition nonarray_device :: AsyncStorage where
  "nonarray_device = \<lparr> item = Some (JsonText NotArray), getItem_rejects = False,
      setItem_rejects = False \<rparr>"

definition legacy_device :: AsyncStorage where
  "legacy_device = \<lparr> item = Some (JsonText (Array [old_record])), getItem_rejects = False,
      setItem_rejects = False \<rparr>"

definition blank_title_form :: ContributorDashboardScreen where
  "blank_title_form = \<lparr> title = [CHR 0x20, CHR 0x09], description = ''D'', rarity = Some Rare,
      imageUri = Some ''uri1'', extraImages = [''card1''], isSubmitting = False,
      submittedCollections = [] \<rparr>"

definition valid_form :: ContributorDashboardScreen where
  "valid_form = \<lparr> title = '' T '', description = ''D'', rarity = Some Rare,
      imageUri = Some ''uri1'', extraImages = [], isSubmitting = False,
      submittedCollections = [] \<rparr>"


definition empty_form :: ContributorDashboardScreen where
  "empty_form = \<lparr> title = [], description = [], rarity = None, imageUri = None,
      extraImages = [], isSubmitting = False, submittedCollections = [] \<rparr>"

section \<open>Basic facts\<close>

subsection \<open>The store and the loaders\<close>

lemma getItem_ok: "\<not> getItem_rejects dev \<Longrightarrow> getItem dev = Inr (item dev)"
  by (simp add: getItem_def)

lemma setItem_ok: "\<not> setItem_rejects dev \<Longrightarrow> setItem dev v = Inr (dev\<lparr>item := Some v\<rparr>)"
  by (simp add: setItem_def)

lemma loadCollections_Array:
  "\<not> getItem_rejects dev \<Longrightarrow> item dev = Some (JsonText (Array cs))
     \<Longrightarrow> collections (loadCollections dev st) = map normalise cs"
  by (simp add: loadCollections_def getItem_def)

lemma images_normalise:
  "sc_images (normalise c) = Some (case sc_images c of None \<Rightarrow> [] | Some xs \<Rightarrow> xs)"
  by (simp add: normalise_def)

lemma normalise_cases:
  "normalise c = (case sc_images c of None \<Rightarrow> c\<lparr>sc_images := Some []\<rparr> | Some xs \<Rightarrow> c)"
  by (cases "sc_images c") (simp_all add: normalise_def)

lemma find_map_normalise:
  "find (\<lambda>c. sc_id c = X) (map normalise cs) = map_option normalise (find (\<lambda>c. sc_id c = X) cs)"
  by (induction cs) (simp_all add: normalise_def)

lemma find_hit: "X \<in> f ` set xs \<Longrightarrow> \<exists>u \<in> set xs. find (\<lambda>c. f c = X) xs = Some u \<and> f u = X"
  by (induction xs) auto

lemma find_miss: "X \<notin> f ` set xs \<Longrightarrow> find (\<lambda>c. f c = X) xs = None"
  by (induction xs) auto

lemma find_in_set: "find P xs = Some x \<Longrightarrow> x \<in> set xs"
  by (induction xs) (auto split: if_splits)

lemma load_Array:
  "\<not> getItem_rejects dev \<Longrightarrow> item dev = Some (JsonText (Array S)) \<Longrightarrow>
   load dev X = (case find (\<lambda>c. sc_id c = X) S of
                   Some u \<Rightarrow> Some (User (normalise u))
                 | None \<Rightarrow> (case find (\<lambda>c. c_id c = X) seedCollections of
                              Some s \<Rightarrow> Some (Seed s) | None \<Rightarrow> None))"
  by (simp add: load_def getItem_def foundUser_def find_map_normalise split: option.splits)

lemma load_falsy:
  "\<not> getItem_rejects dev \<Longrightarrow> falsy (item dev) \<Longrightarrow>
   load dev X = (case find (\<lambda>c. c_id c = X) seedCollections of
                   Some s \<Rightarrow> Some (Seed s) | None \<Rightarrow> None)"
  by (simp add: load_def getItem_def foundUser_def)

lemma load_absent:
  "\<not> getItem_rejects dev \<Longrightarrow> item dev \<in> {None, Some EmptyString} \<Longrightarrow>
     load dev X = load (dev\<lparr>item := Some (JsonText (Array []))\<rparr>) X"
  by (auto simp add: load_def getItem_def foundUser_def)

lemma load_unusable:
  "getItem_rejects dev \<or> item dev \<in> {Some Malformed, Some (JsonText NotArray)} \<Longrightarrow>
     load dev X = None"
  by (auto simp add: load_def getItem_def foundUser_def)

lemma load_user_normalised:
  "load dev X = Some (User u) \<Longrightarrow> \<exists>xs. sc_images u = Some xs"
  by (auto simp add: load_def foundUser_def images_normalise
      split: sum.splits option.splits if_splits parsed.splits dest!: find_in_set)

lemma edit_load_eq: "edit_load dev X = load dev X"
  by (simp add: edit_load_def load_def)

lemma list_loaders_rejected:
  "getItem_rejects dev \<Longrightarrow>
     userCollections (loadUserCollections dev hs) = []
     \<and> collections (loadCollections dev ms) = []
     \<and> submittedCollections (loadSubmitted dev cs) = []"
  by (simp add: loadUserCollections_def loadCollections_def loadSubmitted_def getItem_def)

lemma list_loaders_unusable:
  "item dev \<in> {None, Some EmptyString, Some Malformed, Some (JsonText NotArray)} \<Longrightarrow>
     userCollections (loadUserCollections dev hs) = []
     \<and> collections (loadCollections dev ms) = []
     \<and> submittedCollections (loadSubmitted dev cs) = []"
  by (cases "getItem_rejects dev")
     (auto simp add: loadUserCollections_def loadCollections_def loadSubmitted_def getItem_def)

subsection \<open>The submission form\<close>

lemma trim_empty_iff: "trim s = [] \<longleftrightarrow> (\<forall>c \<in> set s. is_ws c)"
proof
  assume "trim s = []"
  then have a: "\<forall>c \<in> set (dropWhile is_ws s). is_ws c"
    by (simp add: trim_def dropWhile_eq_Nil_conv)
  have "dropWhile is_ws s = []"
  proof (rule ccontr)
    assume n: "dropWhile is_ws s \<noteq> []"
    then have "\<not> is_ws (hd (dropWhile is_ws s))"
      by (rule hd_dropWhile)
    moreover have "hd (dropWhile is_ws s) \<in> set (dropWhile is_ws s)"
      using n by simp
    ultimately show False
      using a by blast
  qed
  then show "\<forall>c \<in> set s. is_ws c"
    by (simp add: dropWhile_eq_Nil_conv)
next
  assume "\<forall>c \<in> set s. is_ws c"
  then have "dropWhile is_ws s = []"
    by (simp add: dropWhile_eq_Nil_conv)
  then show "trim s = []"
    by (simp add: trim_def del: dropWhile_eq_Nil_conv)
qed

lemma ws_simps: "is_ws (CHR 0x20)" "is_ws (CHR 0x09)" "\<not> is_ws (CHR ''T'')" "\<not> is_ws (CHR ''D'')"
  by (simp_all add: is_ws_def)


lemma handleSubmit_missing:
  "missing_info st \<Longrightarrow> handleSubmit now stamp st dev = (st, dev, Some missing_info_alert)"
  by (simp add: handleSubmit_def)

lemma handleSubmit_valid:
  assumes "\<not> missing_info st" and "rarity st = Some r" and "imageUri st = Some uri"
    and "\<not> setItem_rejects dev"
  shows "handleSubmit now stamp st dev =
     (st\<lparr>submittedCollections := newCollection now stamp st r uri # submittedCollections st,
         title := [], description := [], rarity := None, imageUri := None,
         extraImages := [], isSubmitting := False\<rparr>,
      dev\<lparr>item := Some (JsonText (Array (newCollection now stamp st r uri # submittedCollections st)))\<rparr>,
      Some (Alert ''Submitted'' ''Your collection has been submitted.''))"
  using assms by (simp add: handleSubmit_def setItem_def JSON_stringify_def Let_def)

subsection \<open>Deleting, and the screen behind "Edit"\<close>

lemma handleDelete_ok:
  "\<not> setItem_rejects dev \<Longrightarrow>
   handleDelete X DeleteButton st dev
     = (st\<lparr>collections := filter (\<lambda>c. sc_id c \<noteq> X) (collections st)\<rparr>,
        dev\<lparr>item := Some (JsonText (Array (filter (\<lambda>c. sc_id c \<noteq> X) (collections st))))\<rparr>,
        None)"
  by (simp add: handleDelete_def setItem_def JSON_stringify_def Let_def)

lemma length_filter_split:
  "length (filter (\<lambda>c. f c \<noteq> X) xs) + length (filter (\<lambda>c. f c = X) xs) = length xs"
  by (induction xs) auto

lemma edit_step_keeps_store: "snd (edit_step X ev s) = snd s"
  by (cases s; cases ev) simp_all

lemma edit_run_keeps_store: "snd (edit_run X evs s) = snd s"
  by (induction evs arbitrary: s) (simp_all add: edit_step_keeps_store)

section \<open>Local submission store\<close>

text \<open>
  C1. When a sequence \<open>S\<close> of records is written to the store (neither the write nor the
  later read being rejected by the platform), the store holds the serialised \<open>S\<close> and
  \<^verbatim>\<open>loadCollections\<close> of My Collections reconstructs \<open>S\<close>, except that a record without
  \<^verbatim>\<open>images\<close> comes back with \<^verbatim>\<open>images\<close> equal to the empty sequence. A sequence in which
  every record has its \<^verbatim>\<open>images\<close> comes back exactly.
\<close>

theorem save_load_roundtrip:
  assumes "\<not> setItem_rejects dev" and "\<not> getItem_rejects dev"
  shows "\<exists>dev1. setItem dev (JSON_stringify S) = Inr dev1
           \<and> item dev1 = Some (JSON_stringify S)
           \<and> collections (loadCollections dev1 st)
               = map (\<lambda>c. case sc_images c of None \<Rightarrow> c\<lparr>sc_images := Some []\<rparr> | Some xs \<Rightarrow> c) S
           \<and> ((\<forall>c \<in> set S. sc_images c \<noteq> None) \<longrightarrow> collections (loadCollections dev1 st) = S)"
proof -
  let ?dev1 = "dev\<lparr>item := Some (JSON_stringify S)\<rparr>"
  have w: "setItem dev (JSON_stringify S) = Inr ?dev1"
    using assms(1) by (rule setItem_ok)
  have l: "collections (loadCollections ?dev1 st) = map normalise S"
    using assms(2) by (simp add: loadCollections_Array JSON_stringify_def)
  have n: "normalise c = (case sc_images c of None \<Rightarrow> c\<lparr>sc_images := Some []\<rparr> | Some xs \<Rightarrow> c)" for c
    by (cases "sc_images c") (simp_all add: normalise_def)
  have m: "map normalise S = map (\<lambda>c. case sc_images c of None \<Rightarrow> c\<lparr>sc_images := Some []\<rparr> | Some xs \<Rightarrow> c) S"
    by (simp add: n)
  have i: "(\<forall>c \<in> set S. sc_images c \<noteq> None) \<longrightarrow> map normalise S = S"
    by (induction S) (auto simp: normalise_def)
  have a: "collections (loadCollections ?dev1 st)
      = map (\<lambda>c. case sc_images c of None \<Rightarrow> c\<lparr>sc_images := Some []\<rparr> | Some xs \<Rightarrow> c) S"
    using l m by simp
  have b: "(\<forall>c \<in> set S. sc_images c \<noteq> None) \<longrightarrow> collections (loadCollections ?dev1 st) = S"
    using l i by simp
  have c: "item ?dev1 = Some (JSON_stringify S)"
    by simp
  from w c a b show ?thesis
    by blast
qed

theorem save_load_roundtrip_witness:
  "\<not> setItem_rejects fresh_device \<and> \<not> getItem_rejects fresh_device
   \<and> (\<exists>dev1. setItem fresh_device (JSON_stringify [new_record, old_record]) = Inr dev1
        \<and> collections (loadCollections dev1 \<lparr>collections = [], isLoading = True\<rparr>)
            = [new_record, old_record\<lparr>sc_images := Some []\<rparr>])
   \<and> sc_images new_record \<noteq> None
   \<and> (\<exists>dev1. setItem fresh_device (JSON_stringify [new_record]) = Inr dev1
        \<and> collections (loadCollections dev1 \<lparr>collections = [], isLoading = True\<rparr>)
            = [new_record])"
  using save_load_roundtrip [of fresh_device "[new_record, old_record]"
      "\<lparr>collections = [], isLoading = True\<rparr>"]
    save_load_roundtrip [of fresh_device "[new_record]"
      "\<lparr>collections = [], isLoading = True\<rparr>"]
  by (simp add: fresh_device_def new_record_def old_record_def setItem_def)

text \<open>
  C8. Every load is to take an absent key for the empty sequence and to recover from a text
  that does not deserialise (malformed, or not an array) with the empty sequence. Evaluated
  on such stores: the three loaders of lists do so, and the marketplace still shows the
  seed collections. \<^verbatim>\<open>load\<close> of the detail screen, and of the screen behind "Edit", does
  so for an absent key and finds the seed collection "1", as it does on a store that holds
  the empty sequence; on a malformed text and on a value that is not an array the throw in
  its step 1 goes to \<^verbatim>\<open>catch\<close>, step 2 (the seed data) is skipped, and the same id is
  "not found".
\<close>

theorem detail_load_skips_seed_fallback:
  "item corrupt_device = Some Malformed \<and> item nonarray_device = Some (JsonText NotArray)
   \<and> userCollections (loadUserCollections corrupt_device
        \<lparr>selectedFilter = AllFilter, userCollections = []\<rparr>) = []
   \<and> allCollections (loadUserCollections corrupt_device
        \<lparr>selectedFilter = AllFilter, userCollections = []\<rparr>) = seedCollections
   \<and> collections (loadCollections corrupt_device \<lparr>collections = [], isLoading = True\<rparr>) = []
   \<and> submittedCollections (loadSubmitted corrupt_device empty_form) = []
   \<and> load fresh_device ''1'' = Some (Seed (seedCollections ! 0))
   \<and> load empty_device ''1'' = Some (Seed (seedCollections ! 0))
   \<and> load corrupt_device ''1'' = None
   \<and> load nonarray_device ''1'' = None
   \<and> edit_load corrupt_device ''1'' = None
   \<and> edit_load nonarray_device ''1'' = None"
proof -
  have seed1: "find (\<lambda>c. c_id c = ''1'') seedCollections = Some (seedCollections ! 0)"
    by (simp add: seedCollections_def)
  have lists: "userCollections (loadUserCollections corrupt_device
        \<lparr>selectedFilter = AllFilter, userCollections = []\<rparr>) = []
      \<and> collections (loadCollections corrupt_device \<lparr>collections = [], isLoading = True\<rparr>) = []
      \<and> submittedCollections (loadSubmitted corrupt_device empty_form) = []"
    by (rule list_loaders_unusable) (simp add: corrupt_device_def)
  have fresh: "load fresh_device ''1'' = Some (Seed (seedCollections ! 0))"
    by (simp add: load_falsy fresh_device_def seed1)
  have empty: "load empty_device ''1'' = Some (Seed (seedCollections ! 0))"
    by (simp add: load_Array [where S = "[]"] empty_device_def seed1)
  have bad: "load corrupt_device ''1'' = None" "load nonarray_device ''1'' = None"
    by (simp_all add: load_unusable corrupt_device_def nonarray_device_def)
  show ?thesis
    using lists fresh empty bad
    by (simp add: edit_load_eq allCollections_def corrupt_device_def nonarray_device_def)
qed

text \<open>
  C9, as the code has it. On a store that holds the sequence \<open>S\<close>: My Collections loads every
  record with \<^verbatim>\<open>images\<close> coerced, that is, a missing field becomes the empty sequence, a
  present one is kept, and nothing else of the record changes. The detail screen and the
  screen behind "Edit" answer a user hit with exactly the first record of \<open>S\<close> that has the
  id, coerced in the same way, and every such record is answered so. The contributor
  dashboard keeps the records as they were parsed, and the marketplace list builds display
  records that do not depend on \<^verbatim>\<open>images\<close>.
\<close>

theorem images_coercion:
  assumes "\<not> getItem_rejects dev" and "item dev = Some (JsonText (Array S))"
  shows "collections (loadCollections dev ms) = map normalise S
    \<and> (\<forall>c. normalise c = (case sc_images c of None \<Rightarrow> c\<lparr>sc_images := Some []\<rparr> | Some xs \<Rightarrow> c))
    \<and> (\<forall>c \<in> set S. sc_images (normalise c) = Some (case sc_images c of None \<Rightarrow> [] | Some xs \<Rightarrow> xs))
    \<and> (\<forall>u. load dev X = Some (User u) \<longrightarrow>
          sc_images u \<noteq> None
          \<and> (\<exists>c \<in> set S. find (\<lambda>c. sc_id c = X) S = Some c \<and> u = normalise c))
    \<and> (\<forall>c. find (\<lambda>c. sc_id c = X) S = Some c \<longrightarrow> load dev X = Some (User (normalise c)))
    \<and> (\<forall>u. edit_load dev X = Some (User u) \<longrightarrow>
          sc_images u \<noteq> None
          \<and> (\<exists>c \<in> set S. find (\<lambda>c. sc_id c = X) S = Some c \<and> u = normalise c))
    \<and> (\<forall>c. find (\<lambda>c. sc_id c = X) S = Some c \<longrightarrow> edit_load dev X = Some (User (normalise c)))
    \<and> submittedCollections (loadSubmitted dev cs) = S
    \<and> userCollections (loadUserCollections dev hs) = map mapped S
    \<and> (\<forall>c imgs. mapped (c\<lparr>sc_images := imgs\<rparr>) = mapped c)"
proof -
  have a: "collections (loadCollections dev ms) = map normalise S"
    using assms by (simp add: loadCollections_def getItem_def)
  have b: "submittedCollections (loadSubmitted dev cs) = S"
    using assms by (simp add: loadSubmitted_def getItem_def)
  have c: "userCollections (loadUserCollections dev hs) = map mapped S"
    using assms by (simp add: loadUserCollections_def getItem_def)
  have eq: "load dev X = (case find (\<lambda>c. sc_id c = X) S of
                   Some u \<Rightarrow> Some (User (normalise u))
                 | None \<Rightarrow> (case find (\<lambda>c. c_id c = X) seedCollections of
                              Some s \<Rightarrow> Some (Seed s) | None \<Rightarrow> None))"
    using assms by (rule load_Array)
  have d: "\<forall>u. load dev X = Some (User u) \<longrightarrow>
          sc_images u \<noteq> None
          \<and> (\<exists>c \<in> set S. find (\<lambda>c. sc_id c = X) S = Some c \<and> u = normalise c)"
  proof (intro allI impI)
    fix u
    assume hit: "load dev X = Some (User u)"
    show "sc_images u \<noteq> None
          \<and> (\<exists>c \<in> set S. find (\<lambda>c. sc_id c = X) S = Some c \<and> u = normalise c)"
    proof (cases "find (\<lambda>c. sc_id c = X) S")
      case None
      with hit eq show ?thesis
        by (simp split: option.splits)
    next
      case (Some c0)
      with hit eq have "u = normalise c0"
        by simp
      moreover have "c0 \<in> set S"
        using Some by (rule find_in_set)
      ultimately show ?thesis
        using Some by (simp add: images_normalise)
    qed
  qed
  have d': "\<forall>c. find (\<lambda>c. sc_id c = X) S = Some c \<longrightarrow> load dev X = Some (User (normalise c))"
    using eq by simp
  have e: "\<forall>c imgs. mapped (c\<lparr>sc_images := imgs\<rparr>) = mapped c"
    by (simp add: mapped_def)
  have n: "\<forall>c. normalise c = (case sc_images c of None \<Rightarrow> c\<lparr>sc_images := Some []\<rparr> | Some xs \<Rightarrow> c)"
    by (simp add: normalise_cases)
  have i: "\<forall>c \<in> set S. sc_images (normalise c) = Some (case sc_images c of None \<Rightarrow> [] | Some xs \<Rightarrow> xs)"
    by (simp add: images_normalise)
  show ?thesis
    unfolding edit_load_eq
    using a n i d d' b c e by (intro conjI) assumption+
qed

theorem images_coercion_witness:
  "\<not> getItem_rejects legacy_device \<and> item legacy_device = Some (JsonText (Array [old_record]))
   \<and> collections (loadCollections legacy_device \<lparr>collections = [], isLoading = True\<rparr>)
       = [old_record\<lparr>sc_images := Some []\<rparr>]
   \<and> load legacy_device ''1700000000000'' = Some (User (old_record\<lparr>sc_images := Some []\<rparr>))
   \<and> edit_load legacy_device ''1700000000000'' = Some (User (old_record\<lparr>sc_images := Some []\<rparr>))
   \<and> \<not> getItem_rejects single_device \<and> item single_device = Some (JsonText (Array [new_record]))
   \<and> load single_device ''1700000500000'' = Some (User new_record)
   \<and> sc_images new_record = Some [''file:///a.jpg'', ''file:///b.jpg'']
   \<and> submittedCollections (loadSubmitted legacy_device empty_form) = [old_record]"
proof -
  have l1: "\<not> getItem_rejects legacy_device"
    and l2: "item legacy_device = Some (JsonText (Array [old_record]))"
    by (simp_all add: legacy_device_def)
  have s1: "\<not> getItem_rejects single_device"
    and s2: "item single_device = Some (JsonText (Array [new_record]))"
    by (simp_all add: single_device_def)
  have f1: "find (\<lambda>c. sc_id c = ''1700000000000'') [old_record] = Some old_record"
    by (simp add: old_record_def)
  have f2: "find (\<lambda>c. sc_id c = ''1700000500000'') [new_record] = Some new_record"
    by (simp add: new_record_def)
  note legacy = images_coercion [OF l1 l2, where X = "''1700000000000''"
      and ms = "\<lparr>collections = [], isLoading = True\<rparr>" and cs = empty_form]
  note single = images_coercion [OF s1 s2, where X = "''1700000500000''"]
  have n1: "normalise old_record = old_record\<lparr>sc_images := Some []\<rparr>"
    by (simp add: normalise_def old_record_def)
  have n2: "normalise new_record = new_record"
    by (simp add: normalise_def new_record_def)
  have a: "collections (loadCollections legacy_device \<lparr>collections = [], isLoading = True\<rparr>)
      = [old_record\<lparr>sc_images := Some []\<rparr>]"
    using legacy [THEN conjunct1] by (simp add: n1)
  have b: "load legacy_device ''1700000000000'' = Some (User (old_record\<lparr>sc_images := Some []\<rparr>))"
    using legacy [THEN conjunct2, THEN conjunct2, THEN conjunct2, THEN conjunct2,
        THEN conjunct1, rule_format, OF f1]
    by (simp add: n1)
  have c: "edit_load legacy_device ''1700000000000'' = Some (User (old_record\<lparr>sc_images := Some []\<rparr>))"
    using legacy [THEN conjunct2, THEN conjunct2, THEN conjunct2, THEN conjunct2,
        THEN conjunct2, THEN conjunct2, THEN conjunct1, rule_format, OF f1]
    by (simp add: n1)
  have d: "load single_device ''1700000500000'' = Some (User new_record)"
    using single [THEN conjunct2, THEN conjunct2, THEN conjunct2, THEN conjunct2,
        THEN conjunct1, rule_format, OF f2]
    by (simp add: n2)
  have e: "submittedCollections (loadSubmitted legacy_device empty_form) = [old_record]"
    using legacy [THEN conjunct2, THEN conjunct2, THEN conjunct2, THEN conjunct2,
        THEN conjunct2, THEN conjunct2, THEN conjunct2, THEN conjunct1] .
  have f: "sc_images new_record = Some [''file:///a.jpg'', ''file:///b.jpg'']"
    by (simp add: new_record_def)
  from l1 l2 a b c s1 s2 d f e show ?thesis
    by (intro conjI)
qed

text \<open>
  C9 as stated fails on the contributor dashboard: a stored record without \<^verbatim>\<open>images\<close> is
  loaded without \<^verbatim>\<open>images\<close>.
\<close>

theorem dashboard_keeps_missing_images_counterexample:
  "submittedCollections (loadSubmitted legacy_device empty_form) = [old_record]
   \<and> sc_images old_record = None"
  by (simp add: loadSubmitted_def getItem_def legacy_device_def old_record_def)

section \<open>Marketplace list\<close>

text \<open>
  C2. The merged list is the user's items followed by the four seed items in their bundled
  order. With the filter "All" the list shown is the merged list; with a rarity \<open>r\<close> it is
  the merged list restricted to the items of rarity \<open>r\<close>: a subsequence of the merged list
  (relative order kept) that keeps every item of rarity \<open>r\<close>, as often as it occurs, and
  nothing else.
\<close>

theorem merge_filter_marketplace:
  "allCollections st = userCollections st @ seedCollections
   \<and> map c_id seedCollections = [''1'', ''2'', ''3'', ''4'']
   \<and> filteredCollections (st\<lparr>selectedFilter := AllFilter\<rparr>) = userCollections st @ seedCollections
   \<and> filteredCollections (st\<lparr>selectedFilter := Only r\<rparr>)
       = filter (\<lambda>c. c_rarity c = r) (userCollections st)
         @ filter (\<lambda>c. c_rarity c = r) seedCollections
   \<and> subseq (filteredCollections (st\<lparr>selectedFilter := Only r\<rparr>)) (allCollections st)
   \<and> (\<forall>c. count_list (filteredCollections (st\<lparr>selectedFilter := Only r\<rparr>)) c
          = (if c_rarity c = r then count_list (allCollections st) c else 0))"
proof -
  have cnt: "count_list (filter P xs) c = (if P c then count_list xs c else 0)"
    for P and xs :: "Collection list" and c
    by (induction xs) auto
  have ids: "map c_id seedCollections = [''1'', ''2'', ''3'', ''4'']"
    by (simp add: seedCollections_def)
  have flt: "filteredCollections (st\<lparr>selectedFilter := Only r\<rparr>)
      = filter (\<lambda>c. c_rarity c = r) (allCollections st)"
    by (simp add: filteredCollections_def allCollections_def)
  have all: "filteredCollections (st\<lparr>selectedFilter := AllFilter\<rparr>) = allCollections st"
    by (simp add: filteredCollections_def allCollections_def)
  show ?thesis
    unfolding flt all
    by (simp add: ids cnt) (simp add: allCollections_def)
qed

theorem merge_filter_marketplace_witness:
  "filteredCollections \<lparr>selectedFilter = Only Epic, userCollections = [mapped new_record]\<rparr>
     = [mapped new_record, seedCollections ! 0]
   \<and> filteredCollections \<lparr>selectedFilter = AllFilter, userCollections = [mapped new_record]\<rparr>
     = mapped new_record # seedCollections"
  using merge_filter_marketplace [of "\<lparr>selectedFilter = AllFilter, userCollections = [mapped new_record]\<rparr>" Epic]
  by (simp add: seedCollections_def mapped_def new_record_def)

text \<open>
  C10. The marketplace list shows each stored submission as a display record whose creator
  is "You" and whose item count is 1, whatever the submission's card images are; id, title,
  rarity, description (as theme) and cover image (as image URL) are carried over unchanged.
\<close>

theorem marketplace_display_record:
  assumes "\<not> getItem_rejects dev" and "item dev = Some (JsonText (Array S))"
  shows "userCollections (loadUserCollections dev st) = map mapped S
         \<and> (\<forall>c \<in> set S. c_creator (mapped c) = ''You'' \<and> c_items (mapped c) = 1
              \<and> c_id (mapped c) = sc_id c \<and> c_title (mapped c) = sc_title c
              \<and> c_rarity (mapped c) = sc_rarity c \<and> c_theme (mapped c) = sc_description c
              \<and> c_imageUrl (mapped c) = sc_imageUri c
              \<and> (\<forall>imgs. mapped (c\<lparr>sc_images := imgs\<rparr>) = mapped c))"
  using assms by (simp add: loadUserCollections_def getItem_def mapped_def)

theorem marketplace_display_record_witness:
  "userCollections (loadUserCollections
      \<lparr> item = Some (JsonText (Array [new_record])), getItem_rejects = False, setItem_rejects = False \<rparr>
      \<lparr> selectedFilter = AllFilter, userCollections = [] \<rparr>)
    = [\<lparr> c_id = ''1700000500000'', c_title = ''Second'', c_creator = ''You'', c_rarity = Epic,
         c_items = 1, c_theme = ''E'', c_imageUrl = ''file:///cover2.jpg'' \<rparr>]"
  using marketplace_display_record [of
      "\<lparr> item = Some (JsonText (Array [new_record])), getItem_rejects = False, setItem_rejects = False \<rparr>"
      "[new_record]" "\<lparr> selectedFilter = AllFilter, userCollections = [] \<rparr>"]
  by (simp add: new_record_def mapped_def)

section \<open>Detail resolution\<close>

text \<open>
  C3. With the user sequence \<open>S\<close> in the store (or an absent key, for which \<open>S\<close> is empty),
  \<^verbatim>\<open>load\<close> of the detail screen looks the id up in \<open>S\<close> first, by equality of the id
  strings, and answers with the first hit, tagged as the user's (its \<^verbatim>\<open>images\<close> coerced);
  failing that it looks the id up in the seed data and answers with the hit tagged as seed;
  failing that too it answers "not found". So an id found among the user's records gives the
  user variant, also when a seed record has the same id; an id found only in the seed data
  gives the seed variant; an id found in neither gives "not found".
\<close>

theorem detail_resolution:
  assumes "\<not> getItem_rejects dev"
    and "item dev = Some (JsonText (Array S)) \<or> (falsy (item dev) \<and> S = [])"
  shows "load dev X = (case find (\<lambda>c. sc_id c = X) S of
                         Some u \<Rightarrow> Some (User (normalise u))
                       | None \<Rightarrow> (case find (\<lambda>c. c_id c = X) seedCollections of
                                    Some s \<Rightarrow> Some (Seed s) | None \<Rightarrow> None))
    \<and> (X \<in> sc_id ` set S \<longrightarrow>
          (\<exists>u \<in> set S. load dev X = Some (User (normalise u)) \<and> sc_id (normalise u) = X))
    \<and> (X \<notin> sc_id ` set S \<and> X \<in> c_id ` set seedCollections \<longrightarrow>
          (\<exists>s \<in> set seedCollections. load dev X = Some (Seed s) \<and> c_id s = X))
    \<and> (X \<notin> sc_id ` set S \<and> X \<notin> c_id ` set seedCollections \<longrightarrow> load dev X = None)"
proof -
  have eq: "load dev X = (case find (\<lambda>c. sc_id c = X) S of
                         Some u \<Rightarrow> Some (User (normalise u))
                       | None \<Rightarrow> (case find (\<lambda>c. c_id c = X) seedCollections of
                                    Some s \<Rightarrow> Some (Seed s) | None \<Rightarrow> None))"
    using assms load_Array [of dev S X] load_falsy [of dev X] by auto
  have user: "\<exists>u \<in> set S. load dev X = Some (User (normalise u)) \<and> sc_id (normalise u) = X"
    if "X \<in> sc_id ` set S"
  proof -
    from find_hit [OF that] obtain u where "u \<in> set S" "find (\<lambda>c. sc_id c = X) S = Some u" "sc_id u = X"
      by blast
    then show ?thesis
      using eq by (auto simp: normalise_def)
  qed
  have seed: "\<exists>s \<in> set seedCollections. load dev X = Some (Seed s) \<and> c_id s = X"
    if "X \<notin> sc_id ` set S" "X \<in> c_id ` set seedCollections"
  proof -
    from find_hit [OF that(2)] obtain s where "s \<in> set seedCollections"
      "find (\<lambda>c. c_id c = X) seedCollections = Some s" "c_id s = X"
      by blast
    then show ?thesis
      using eq find_miss [OF that(1)] by auto
  qed
  have none: "load dev X = None"
    if "X \<notin> sc_id ` set S" "X \<notin> c_id ` set seedCollections"
    using eq find_miss [OF that(1)] find_miss [OF that(2)] by simp
  show ?thesis
  proof (intro conjI impI)
    show "load dev X = (case find (\<lambda>c. sc_id c = X) S of
                         Some u \<Rightarrow> Some (User (normalise u))
                       | None \<Rightarrow> (case find (\<lambda>c. c_id c = X) seedCollections of
                                    Some s \<Rightarrow> Some (Seed s) | None \<Rightarrow> None))"
      by (rule eq)
  next
    assume "X \<in> sc_id ` set S"
    then show "\<exists>u \<in> set S. load dev X = Some (User (normalise u)) \<and> sc_id (normalise u) = X"
      by (rule user)
  next
    assume "X \<notin> sc_id ` set S \<and> X \<in> c_id ` set seedCollections"
    then show "\<exists>s \<in> set seedCollections. load dev X = Some (Seed s) \<and> c_id s = X"
      using seed by simp
  next
    assume "X \<notin> sc_id ` set S \<and> X \<notin> c_id ` set seedCollections"
    then show "load dev X = None"
      using none by simp
  qed
qed

theorem detail_resolution_witness:
  "\<not> getItem_rejects stocked_device
   \<and> item stocked_device = Some (JsonText (Array [new_record, clash_record]))
   \<and> load stocked_device ''1700000500000'' = Some (User new_record)
   \<and> load stocked_device ''2'' = Some (User (clash_record\<lparr>sc_images := Some []\<rparr>))
   \<and> load stocked_device ''3'' = Some (Seed (seedCollections ! 2))
   \<and> load stocked_device ''5'' = None
   \<and> \<not> getItem_rejects fresh_device \<and> falsy (item fresh_device)
   \<and> load fresh_device ''2'' = Some (Seed (seedCollections ! 1))"
  using detail_resolution [of stocked_device "[new_record, clash_record]" "''1700000500000''"]
    detail_resolution [of stocked_device "[new_record, clash_record]" "''2''"]
    detail_resolution [of stocked_device "[new_record, clash_record]" "''3''"]
    detail_resolution [of stocked_device "[new_record, clash_record]" "''5''"]
    detail_resolution [of fresh_device "[]" "''2''"]
  by (simp add: stocked_device_def fresh_device_def new_record_def clash_record_def
        normalise_def seedCollections_def)

section \<open>Submission form\<close>

text \<open>
  C4. When the title or the description is blank (nothing but white space), or no rarity
  or no cover image is selected, \<^verbatim>\<open>handleSubmit\<close> answers with the one "Missing info"
  alert, whichever field is missing, and leaves the form, the list in memory and the store
  as they were. Card images are optional: a form that is otherwise complete and has no
  card images is submitted, and the new record has the empty sequence of images.
\<close>

theorem submit_validation:
  "((\<forall>c \<in> set (title st). is_ws c) \<or> (\<forall>c \<in> set (description st). is_ws c)
      \<or> rarity st = None \<or> imageUri st = None \<or> imageUri st = Some []
    \<longrightarrow> handleSubmit now stamp st dev
          = (st, dev, Some (Alert ''Missing info''
               ''Please add a title, description, rarity, and cover image before submitting.'')))
   \<and> (\<not> (\<forall>c \<in> set (title st). is_ws c) \<and> \<not> (\<forall>c \<in> set (description st). is_ws c)
       \<and> rarity st = Some r \<and> imageUri st = Some uri \<and> uri \<noteq> [] \<and> extraImages st = []
       \<and> \<not> setItem_rejects dev
    \<longrightarrow> (\<exists>st1 dev1 rest. handleSubmit now stamp st dev
             = (st1, dev1, Some (Alert ''Submitted'' ''Your collection has been submitted.''))
           \<and> submittedCollections st1 = rest
           \<and> sc_images (hd rest) = Some [] \<and> rest \<noteq> []))"
proof (intro conjI impI)
  assume "(\<forall>c \<in> set (title st). is_ws c) \<or> (\<forall>c \<in> set (description st). is_ws c)
      \<or> rarity st = None \<or> imageUri st = None \<or> imageUri st = Some []"
  then have "missing_info st"
    by (simp add: missing_info_def trim_empty_iff)
  then show "handleSubmit now stamp st dev
          = (st, dev, Some (Alert ''Missing info''
               ''Please add a title, description, rarity, and cover image before submitting.''))"
    by (simp add: handleSubmit_missing missing_info_alert_def)
next
  assume a: "\<not> (\<forall>c \<in> set (title st). is_ws c) \<and> \<not> (\<forall>c \<in> set (description st). is_ws c)
       \<and> rarity st = Some r \<and> imageUri st = Some uri \<and> uri \<noteq> [] \<and> extraImages st = []
       \<and> \<not> setItem_rejects dev"
  then have v: "\<not> missing_info st"
    by (simp add: missing_info_def trim_empty_iff)
  from a have "rarity st = Some r" "imageUri st = Some uri" "\<not> setItem_rejects dev" "extraImages st = []"
    by simp_all
  with v show "\<exists>st1 dev1 rest. handleSubmit now stamp st dev
             = (st1, dev1, Some (Alert ''Submitted'' ''Your collection has been submitted.''))
           \<and> submittedCollections st1 = rest
           \<and> sc_images (hd rest) = Some [] \<and> rest \<noteq> []"
    by (simp add: handleSubmit_valid newCollection_def)
qed

theorem submit_validation_witness:
  "title blank_title_form = [CHR 0x20, CHR 0x09] \<and> is_ws (CHR 0x20) \<and> is_ws (CHR 0x09)
   \<and> handleSubmit 1700000000000 ''2023-11-14T22:13:20.000Z'' blank_title_form fresh_device
      = (blank_title_form, fresh_device, Some (Alert ''Missing info''
               ''Please add a title, description, rarity, and cover image before submitting.''))
   \<and> \<not> (\<forall>c \<in> set (title valid_form). is_ws c) \<and> \<not> (\<forall>c \<in> set (description valid_form). is_ws c)
   \<and> extraImages valid_form = [] \<and> \<not> setItem_rejects fresh_device
   \<and> snd (snd (handleSubmit 1700000000000 ''2023-11-14T22:13:20.000Z'' valid_form fresh_device))
      = Some (Alert ''Submitted'' ''Your collection has been submitted.'')"
  using submit_validation [where st = blank_title_form and r = Rare and uri = "''uri1''"
        and dev = fresh_device and now = 1700000000000 and stamp = "''2023-11-14T22:13:20.000Z''"]
    submit_validation [where st = valid_form and r = Rare and uri = "''uri1''"
        and dev = fresh_device and now = 1700000000000 and stamp = "''2023-11-14T22:13:20.000Z''"]
  by (auto simp add: blank_title_form_def valid_form_def fresh_device_def ws_simps)



section \<open>Edit and delete\<close>

text \<open>
  C6, as the code has it. Confirming the deletion of id \<open>X\<close> (the write not being rejected)
  keeps exactly the records whose id is not \<open>X\<close>, in their order, and stores that list: no
  record with id \<open>X\<close> is left, and the length drops by the number of records that had id
  \<open>X\<close>. With exactly one such record the list is one shorter; with none it is unchanged.
\<close>

theorem delete_by_id:
  assumes "\<not> setItem_rejects dev"
  shows "\<exists>st1 dev1.
      handleDelete X DeleteButton st dev = (st1, dev1, None)
      \<and> item dev1 = Some (JSON_stringify (collections st1))
      \<and> collections st1 = filter (\<lambda>c. sc_id c \<noteq> X) (collections st)
      \<and> X \<notin> sc_id ` set (collections st1)
      \<and> length (collections st1) + length (filter (\<lambda>c. sc_id c = X) (collections st))
          = length (collections st)
      \<and> (length (filter (\<lambda>c. sc_id c = X) (collections st)) = 1
           \<longrightarrow> Suc (length (collections st1)) = length (collections st))
      \<and> (X \<notin> sc_id ` set (collections st) \<longrightarrow> collections st1 = collections st)"
proof -
  let ?kept = "filter (\<lambda>c. sc_id c \<noteq> X) (collections st)"
  have len: "length ?kept + length (filter (\<lambda>c. sc_id c = X) (collections st))
      = length (collections st)"
    by (rule length_filter_split)
  have gone: "X \<notin> sc_id ` set ?kept"
    by auto
  have one: "length (filter (\<lambda>c. sc_id c = X) (collections st)) = 1
      \<longrightarrow> Suc (length ?kept) = length (collections st)"
    using len by simp
  have absent: "X \<notin> sc_id ` set (collections st) \<longrightarrow> ?kept = collections st"
    by (auto simp: filter_id_conv)
  show ?thesis
    using handleDelete_ok [OF assms, of X st] len gone one absent
    by (simp add: JSON_stringify_def)
qed

theorem delete_by_id_witness:
  "\<not> setItem_rejects fresh_device
   \<and> length (filter (\<lambda>c. sc_id c = ''1700000000000'') [new_record, old_record]) = 1
   \<and> ''7'' \<notin> sc_id ` set [new_record, old_record]
   \<and> (\<exists>st1 dev1. handleDelete ''1700000000000'' DeleteButton
          \<lparr>collections = [new_record, old_record], isLoading = False\<rparr> fresh_device = (st1, dev1, None)
        \<and> collections st1 = [new_record] \<and> item dev1 = Some (JsonText (Array [new_record])))
   \<and> (\<exists>st1 dev1. handleDelete ''7'' DeleteButton
          \<lparr>collections = [new_record, old_record], isLoading = False\<rparr> fresh_device = (st1, dev1, None)
        \<and> collections st1 = [new_record, old_record])"
  using delete_by_id [where dev = fresh_device and X = "''1700000000000''"
      and st = "\<lparr>collections = [new_record, old_record], isLoading = False\<rparr>"]
    delete_by_id [where dev = fresh_device and X = "''7''"
      and st = "\<lparr>collections = [new_record, old_record], isLoading = False\<rparr>"]
  by (auto simp add: fresh_device_def new_record_def old_record_def JSON_stringify_def)

text \<open>
  C6 as stated fails on a sequence in which two records share the id: deleting that id from
  a sequence of length 2 leaves the empty sequence, not one of length 1.
\<close>

theorem delete_duplicate_ids_counterexample:
  "sc_id old_record = ''1700000000000'' \<and> sc_id twin_record = ''1700000000000''
   \<and> length [old_record, twin_record] = 2
   \<and> handleDelete ''1700000000000'' DeleteButton
        \<lparr>collections = [old_record, twin_record], isLoading = False\<rparr> fresh_device
      = (\<lparr>collections = [], isLoading = False\<rparr>,
         fresh_device\<lparr>item := Some (JsonText (Array []))\<rparr>, None)
   \<and> length ([] :: SubmittedCollection list) \<noteq> 2 - 1"
  by (simp add: handleDelete_def setItem_def JSON_stringify_def fresh_device_def
        old_record_def twin_record_def)

text \<open>
  C7, as the code has it. \<open>handleEdit\<close> pushes the route \<^verbatim>\<open>"/edit-collection/" + id\<close>. The
  screen there resolves the id as the detail screen does and shows what it found; it has no
  form and no save: whatever the user does on it, the store is left as it was.
\<close>

theorem edit_route_read_only:
  "handleEdit X = Push (''/edit-collection/'' @ X)
   \<and> collection (fst (edit_step X Mounted (st, dev))) = load dev X
   \<and> snd (edit_step X ev (st, dev)) = dev
   \<and> snd (edit_run X evs (st, dev)) = dev"
  by (simp add: handleEdit_def edit_load_eq edit_step_keeps_store edit_run_keeps_store)

theorem edit_route_read_only_witness:
  "handleEdit ''1700000500000'' = Push ''/edit-collection/1700000500000''
   \<and> edit_run ''1700000500000'' [Mounted, OpenViewerAt 1, ScrollEnd 0, CloseViewer, PanEnd True]
        (\<lparr>d_isLoading = True, collection = None, viewerOpen = False, viewerIndex = 0\<rparr>, single_device)
      = (\<lparr>d_isLoading = False, collection = Some (User new_record), viewerOpen = False,
          viewerIndex = 0\<rparr>, single_device)"
  using edit_route_read_only [where X = "''1700000500000''" and dev = single_device
      and st = "\<lparr>d_isLoading = True, collection = None, viewerOpen = False, viewerIndex = 0\<rparr>"
      and evs = "[Mounted, OpenViewerAt 1, ScrollEnd 0, CloseViewer, PanEnd True]"]
  by (simp add: single_device_def new_record_def edit_load_def getItem_def foundUser_def
        normalise_def)

text \<open>
  C7 as stated fails: with one record in the store, no sequence of events on the screen
  behind "Edit" ends with the store holding that record under a new title.
\<close>

theorem edit_never_saves_counterexample:
  "\<not> (\<exists>evs st. item (snd (edit_run ''1700000500000'' evs (st, single_device)))
          = Some (JsonText (Array [new_record\<lparr>sc_title := ''Renamed''\<rparr>])))"
  by (simp add: edit_run_keeps_store single_device_def new_record_def)

end
